theory Spec2Isabelle
  imports Complex_Main
begin

section \<open>Restaurant ordering: menu items, orders, payments, order queue, menu catalog\<close>

text \<open>
  A shallow embedding of \<^verbatim>\<open>restaurant_case_3rd_ed.py\<close>.

  Numbers. The source annotates prices and amounts as \<^verbatim>\<open>float\<close> and quantities as
  \<^verbatim>\<open>int\<close>. A float is a \<open>pyfloat\<close>: a finite value, held as an exact rational, or one
  of the special values \<^verbatim>\<open>inf\<close>, \<^verbatim>\<open>-inf\<close> and \<^verbatim>\<open>nan\<close>. Comparison and arithmetic
  on the special values are those of IEEE 754, which Python's floats follow: every
  comparison with \<^verbatim>\<open>nan\<close> is False, \<^verbatim>\<open>inf - inf\<close> and \<^verbatim>\<open>inf * 0\<close> are \<^verbatim>\<open>nan\<close>. On
  finite values the arithmetic is exact: rounding, the sign of a zero and overflow are
  outside the model. An \<^verbatim>\<open>int\<close> operand of a float operation is converted to the float
  of the same value, and the literal \<^verbatim>\<open>0.9\<close> is nine tenths. Quantities are Python's
  unbounded integers, \<^typ>\<open>int\<close>.

  Effects. A method that mutates its object returns the object after the call together
  with the outcome of the call; a raised exception is the outcome \<open>Inl\<close>, and the object
  returned with it is the object as the exception leaves it. A method that prints returns
  the printed line, as the template of its f-string with the interpolated values.
\<close>

datatype pyfloat = Finite rat | PosInf | NegInf | NaN

instantiation pyfloat :: "{comm_monoid_add, uminus, minus, times, ord}"
begin

definition zero_pyfloat :: pyfloat where
  "zero_pyfloat = Finite 0"

fun plus_pyfloat :: "pyfloat \<Rightarrow> pyfloat \<Rightarrow> pyfloat" where
  "NaN + b = NaN"
| "a + NaN = NaN"
| "Finite x + Finite y = Finite (x + y)"
| "PosInf + NegInf = NaN"
| "NegInf + PosInf = NaN"
| "PosInf + b = PosInf"
| "a + PosInf = PosInf"
| "NegInf + b = NegInf"
| "a + NegInf = NegInf"

fun uminus_pyfloat :: "pyfloat \<Rightarrow> pyfloat" where
  "- Finite x = Finite (- x)"
| "- PosInf = NegInf"
| "- NegInf = PosInf"
| "- NaN = NaN"

definition minus_pyfloat :: "pyfloat \<Rightarrow> pyfloat \<Rightarrow> pyfloat" where
  "minus_pyfloat a b = a + (- b)"

fun times_pyfloat :: "pyfloat \<Rightarrow> pyfloat \<Rightarrow> pyfloat" where
  "NaN * b = NaN"
| "a * NaN = NaN"
| "Finite x * Finite y = Finite (x * y)"
| "Finite x * PosInf = (if x = 0 then NaN else if 0 < x then PosInf else NegInf)"
| "Finite x * NegInf = (if x = 0 then NaN else if 0 < x then NegInf else PosInf)"
| "PosInf * Finite y = (if y = 0 then NaN else if 0 < y then PosInf else NegInf)"
| "NegInf * Finite y = (if y = 0 then NaN else if 0 < y then NegInf else PosInf)"
| "PosInf * PosInf = PosInf"
| "PosInf * NegInf = NegInf"
| "NegInf * PosInf = NegInf"
| "NegInf * NegInf = PosInf"

fun less_pyfloat :: "pyfloat \<Rightarrow> pyfloat \<Rightarrow> bool" where
  "NaN < b = False"
| "a < NaN = False"
| "Finite x < Finite y = (x < y)"
| "Finite x < PosInf = True"
| "Finite x < NegInf = False"
| "PosInf < b = False"
| "NegInf < NegInf = False"
| "NegInf < b = True"

fun less_eq_pyfloat :: "pyfloat \<Rightarrow> pyfloat \<Rightarrow> bool" where
  "NaN \<le> b = False"
| "a \<le> NaN = False"
| "Finite x \<le> Finite y = (x \<le> y)"
| "Finite x \<le> PosInf = True"
| "Finite x \<le> NegInf = False"
| "PosInf \<le> PosInf = True"
| "PosInf \<le> b = False"
| "NegInf \<le> b = True"

instance
proof (standard, goal_cases)
  case (1 u v w)
  show ?case by (cases u; cases v; cases w; simp)
next
  case (2 u v)
  show ?case by (cases u; cases v; simp)
next
  case (3 u)
  show ?case by (cases u; simp add: zero_pyfloat_def)
qed

end

type_synonym amount = pyfloat

datatype error =
    ValueError string
  | NotImplementedError string

subsection \<open>MenuItem and its subclasses\<close>

text \<open>
  The class of an item, with the attribute the subclass adds: \<^verbatim>\<open>_size\<close> for a Beverage,
  \<^verbatim>\<open>_portion_size\<close> for an Appetizer.
\<close>

datatype item_class =
    MenuItem
  | Beverage string
  | Appetizer string
  | Maincourse

record menu_item =
  name :: string
  price :: amount
  cls :: item_class

definition isinstance_Maincourse :: "menu_item \<Rightarrow> bool" where
  "isinstance_Maincourse item = (case cls item of Maincourse \<Rightarrow> True | _ \<Rightarrow> False)"

definition isinstance_Beverage :: "menu_item \<Rightarrow> bool" where
  "isinstance_Beverage item = (case cls item of Beverage _ \<Rightarrow> True | _ \<Rightarrow> False)"

definition get_name :: "menu_item \<Rightarrow> string" where
  "get_name self = name self"

definition set_name :: "menu_item \<Rightarrow> string \<Rightarrow> menu_item" where
  "set_name self n = self\<lparr>name := n\<rparr>"

definition get_price :: "menu_item \<Rightarrow> amount" where
  "get_price self = price self"

definition set_price :: "menu_item \<Rightarrow> amount \<Rightarrow> menu_item \<times> (error + unit)" where
  "set_price self p =
     (if p < 0 then (self, Inl (ValueError ''Price cannot be negative.''))
      else (self\<lparr>price := p\<rparr>, Inr ()))"

definition total_price :: "menu_item \<Rightarrow> int \<Rightarrow> amount" where
  "total_price self quantity = price self * Finite (of_int quantity)"

subsection \<open>Order\<close>

record order =
  order_items :: "(menu_item \<times> int) list"

definition Order_init :: order where
  "Order_init = \<lparr>order_items = []\<rparr>"

definition add_menu_item :: "order \<Rightarrow> menu_item \<Rightarrow> int \<Rightarrow> order \<times> (error + unit)" where
  "add_menu_item self item quantity =
     (self\<lparr>order_items := order_items self @ [(item, quantity)]\<rparr>, Inr ())"

text \<open>
  The \<^verbatim>\<open>for\<close> loop of \<^verbatim>\<open>calculate_total_price\<close>, with the running \<^verbatim>\<open>total\<close> as
  accumulator \<open>tot\<close>; \<open>has_maincourse\<close> is computed once, before the loop.
\<close>

fun total_loop :: "bool \<Rightarrow> (menu_item \<times> int) list \<Rightarrow> amount \<Rightarrow> amount" where
  "total_loop has_maincourse [] tot = tot"
| "total_loop has_maincourse ((item, quantity) # rest) tot =
     (if has_maincourse \<and> isinstance_Beverage item
      then total_loop has_maincourse rest (tot + total_price item quantity * Finite (9 / 10))
      else total_loop has_maincourse rest (tot + total_price item quantity))"

definition calculate_total_price :: "order \<Rightarrow> amount" where
  "calculate_total_price self =
     (let tot = 0;
          has_maincourse = list_ex (\<lambda>(item, _). isinstance_Maincourse item) (order_items self)
      in total_loop has_maincourse (order_items self) tot)"

subsection \<open>Payment\<close>

text \<open>
  The three classes; \<^verbatim>\<open>pay\<close> is dispatched on the class of the receiver. The lines
  printed, one constructor per f-string:
  \<^item> \<open>PayingWithCard amount ending\<close>: "Paying $amount with card ending in ending";
  \<^item> \<open>PaidInCash amount change\<close>: "Paid $amount in cash. Change: $change";
  \<^item> \<open>InsufficientFunds need\<close>: "Insufficient funds. Need $need more."
\<close>

datatype payment =
    Payment
  | CardPayment string int
  | CashPayment amount

datatype printed =
    PayingWithCard amount string
  | PaidInCash amount amount
  | InsufficientFunds amount

text \<open>
  Python's slice \<^verbatim>\<open>s[i:]\<close>: a negative start counts from the end, and a start outside
  the sequence is clamped to it.
\<close>

definition slice_from :: "'a list \<Rightarrow> int \<Rightarrow> 'a list" where
  "slice_from s i =
     (let n = int (length s);
          start = (if i < 0 then max (n + i) 0 else min i n)
      in drop (nat start) s)"

fun pay :: "payment \<Rightarrow> amount \<Rightarrow> error + printed" where
  "pay Payment amount =
     Inl (NotImplementedError ''Subclasses must implement the pay() method.'')"
| "pay (CardPayment card_number cvv) amount =
     Inr (PayingWithCard amount (slice_from card_number (- 4)))"
| "pay (CashPayment cash_given) amount =
     (if cash_given \<ge> amount
      then (let change = cash_given - amount in Inr (PaidInCash amount change))
      else Inr (InsufficientFunds (amount - cash_given)))"

subsection \<open>OrderManager\<close>

text \<open>
  \<^verbatim>\<open>Queue()\<close> is created without a bound, so \<^verbatim>\<open>put\<close> never blocks; \<^verbatim>\<open>get\<close> is only
  called on a queue that is not empty. The queue is the list of its elements, oldest first.
\<close>

record 'o order_manager =
  orders :: "'o list"

definition OrderManager_init :: "'o order_manager" where
  "OrderManager_init = \<lparr>orders = []\<rparr>"

definition add_order :: "'o order_manager \<Rightarrow> 'o \<Rightarrow> 'o order_manager" where
  "add_order self ord = self\<lparr>orders := orders self @ [ord]\<rparr>"

definition process_order :: "'o order_manager \<Rightarrow> 'o order_manager \<times> 'o option" where
  "process_order self =
     (case orders self of
        [] \<Rightarrow> (self, None)
      | first # rest \<Rightarrow> (self\<lparr>orders := rest\<rparr>, Some first))"

definition len :: "'o order_manager \<Rightarrow> nat" where
  "len self = length (orders self)"

text \<open>
  A caller's sequence of calls on one manager, and the values its \<^verbatim>\<open>process_order\<close>
  calls return, in the order of the calls.
\<close>

datatype 'o call = AddOrder 'o | ProcessOrder

fun run :: "'o order_manager \<Rightarrow> 'o call list \<Rightarrow> 'o order_manager \<times> 'o option list" where
  "run m [] = (m, [])"
| "run m (AddOrder e # cs) = run (add_order m e) cs"
| "run m (ProcessOrder # cs) =
     (case process_order m of
        (m', r) \<Rightarrow> (case run m' cs of (m'', rs) \<Rightarrow> (m'', r # rs)))"

subsection \<open>Menu\<close>

text \<open>
  The dictionary \<^verbatim>\<open>menu_items\<close> maps a category to the list of its entries; an entry
  is the dictionary with the keys "name" and "price".
\<close>

record entry =
  entry_name :: string
  entry_price :: amount

record menu =
  menu_items :: "string \<rightharpoonup> entry list"

definition Menu_init :: menu where
  "Menu_init = \<lparr>menu_items = Map.empty\<rparr>"

definition add_item :: "menu \<Rightarrow> string \<Rightarrow> string \<Rightarrow> amount \<Rightarrow> menu" where
  "add_item self category n p =
     (let items = (case menu_items self category of None \<Rightarrow> [] | Some es \<Rightarrow> es)
      in self\<lparr>menu_items := (menu_items self)
                 (category \<mapsto> items @ [\<lparr>entry_name = n, entry_price = p\<rparr>])\<rparr>)"

text \<open>The loop of \<^verbatim>\<open>update_item\<close>: the first entry named \<open>old_name\<close> is rewritten.\<close>

fun update_first :: "entry list \<Rightarrow> string \<Rightarrow> string \<Rightarrow> amount \<Rightarrow> (entry list) option" where
  "update_first [] old_name new_name new_price = None"
| "update_first (item # rest) old_name new_name new_price =
     (if entry_name item = old_name
      then Some (item\<lparr>entry_name := new_name, entry_price := new_price\<rparr> # rest)
      else map_option ((#) item) (update_first rest old_name new_name new_price))"

definition update_item :: "menu \<Rightarrow> string \<Rightarrow> string \<Rightarrow> string \<Rightarrow> amount \<Rightarrow> menu \<times> bool" where
  "update_item self category old_name new_name new_price =
     (case menu_items self category of
        Some es \<Rightarrow>
          (case update_first es old_name new_name new_price of
             Some es' \<Rightarrow> (self\<lparr>menu_items := (menu_items self)(category \<mapsto> es')\<rparr>, True)
           | None \<Rightarrow> (self, False))
      | None \<Rightarrow> (self, False))"

definition delete_item :: "menu \<Rightarrow> string \<Rightarrow> string \<Rightarrow> menu \<times> bool" where
  "delete_item self category n =
     (case menu_items self category of
        Some es \<Rightarrow>
          (self\<lparr>menu_items := (menu_items self)
                   (category \<mapsto> [item \<leftarrow> es. entry_name item \<noteq> n])\<rparr>, True)
      | None \<Rightarrow> (self, False))"

definition get_menu :: "menu \<Rightarrow> (string \<rightharpoonup> entry list)" where
  "get_menu self = menu_items self"

subsection \<open>Reading a run of the OrderManager\<close>

text \<open>
  The orders a sequence of calls enqueues, and the orders a list of \<^verbatim>\<open>process_order\<close>
  results hands out (\<open>None\<close> is the result on an empty queue), both in order.
\<close>

fun added :: "'o call list \<Rightarrow> 'o list" where
  "added [] = []"
| "added (AddOrder e # cs) = e # added cs"
| "added (ProcessOrder # cs) = added cs"

fun returned :: "'o option list \<Rightarrow> 'o list" where
  "returned [] = []"
| "returned (None # rs) = returned rs"
| "returned (Some x # rs) = x # returned rs"

subsection \<open>Example data\<close>

text \<open>
  The items and the menu of the example at the end of the source, a free item and an
  item whose price is \<^verbatim>\<open>float('inf')\<close>.
\<close>

definition coke :: menu_item where
  "coke = \<lparr>name = ''Coke'', price = Finite (5 / 2), cls = Beverage ''Medium''\<rparr>"

definition rolls :: menu_item where
  "rolls = \<lparr>name = ''Spring Rolls'', price = Finite 5, cls = Appetizer ''6 pieces''\<rparr>"

definition spaghetti :: menu_item where
  "spaghetti = \<lparr>name = ''Spaghetti'', price = Finite 12, cls = Maincourse\<rparr>"

definition water :: menu_item where
  "water = \<lparr>name = ''Water'', price = Finite 0, cls = Beverage ''Small''\<rparr>"

definition priceless :: menu_item where
  "priceless = \<lparr>name = ''Truffle'', price = PosInf, cls = Maincourse\<rparr>"

definition demo_menu :: menu where
  "demo_menu =
     add_item (add_item (add_item (add_item Menu_init
       ''Beverage'' ''Coke'' (Finite (5 / 2))) ''Appetizer'' ''Spring Rolls'' (Finite 5))
       ''Beverage'' ''Tea'' (Finite 2)) ''Beverage'' ''Coke'' (Finite 3)"

section \<open>Properties\<close>

subsection \<open>Pricing\<close>

lemma total_loop_sum:
  "total_loop hm xs t =
     t + (\<Sum>(item, q) \<leftarrow> xs.
            if hm \<and> isinstance_Beverage item
            then price item * Finite (of_int q) * Finite (9 / 10)
            else price item * Finite (of_int q))"
  by (induction hm xs t rule: total_loop.induct) (simp_all add: total_price_def add.assoc)

lemma list_ex_Maincourse:
  "list_ex (\<lambda>(item, _). isinstance_Maincourse item) xs
     = (\<exists>e \<in> set xs. isinstance_Maincourse (fst e))"
  by (induction xs) auto

lemma isinstance_simps:
  "isinstance_Maincourse \<lparr>name = n, price = p, cls = c\<rparr> = (c = Maincourse)"
  "isinstance_Beverage \<lparr>name = n, price = p, cls = c\<rparr> = (\<exists>s. c = Beverage s)"
  by (cases c; simp add: isinstance_Maincourse_def isinstance_Beverage_def)+

text \<open>
  C1. The total of an order is the sum, over its entries, of price times quantity, where
  the subtotal of an entry is multiplied by 0.9 exactly when the entry's item is a
  Beverage and some entry of the order is a Maincourse. So with no Maincourse in the
  order every entry counts undiscounted, and with one every Beverage entry is discounted
  and no other entry is.
\<close>

theorem calculate_total_price_discount:
  "calculate_total_price ord =
     (\<Sum>(item, q) \<leftarrow> order_items ord.
        if (\<exists>e \<in> set (order_items ord). isinstance_Maincourse (fst e))
           \<and> isinstance_Beverage item
        then price item * Finite (of_int q) * Finite (9 / 10)
        else price item * Finite (of_int q))"
  by (simp add: calculate_total_price_def total_loop_sum list_ex_Maincourse)

text \<open>
  Two Cokes, one Spring Rolls and one Spaghetti cost 21.50; one Coke and two Spring Rolls,
  with no main course, cost 12.50.
\<close>

theorem calculate_total_price_discount_witness:
  "calculate_total_price \<lparr>order_items = [(coke, 2), (rolls, 1), (spaghetti, 1)]\<rparr>
     = Finite (43 / 2)
   \<and> calculate_total_price \<lparr>order_items = [(coke, 1), (rolls, 2)]\<rparr> = Finite (25 / 2)"
  using calculate_total_price_discount [of "\<lparr>order_items = [(coke, 2), (rolls, 1), (spaghetti, 1)]\<rparr>"]
        calculate_total_price_discount [of "\<lparr>order_items = [(coke, 1), (rolls, 2)]\<rparr>"]
  by (simp add: coke_def rolls_def spaghetti_def isinstance_simps zero_pyfloat_def)

text \<open>
  C9. A freshly created order has no entries, and its total is 0.
\<close>

theorem empty_order_total:
  "order_items Order_init = [] \<and> calculate_total_price Order_init = 0"
  by (simp add: calculate_total_price_def Order_init_def)

text \<open>
  C6, as amended. \<open>total_price\<close> returns the product of the price and the quantity for
  every quantity, with no check of the quantity. For an item with a finite price that is
  not negative the result is 0 for quantity 0; for a negative quantity it is at most 0,
  and negative when the price is positive.
\<close>

theorem total_price_product:
  "total_price item q = price item * Finite (of_int q)
   \<and> (price item = Finite x \<and> 0 \<le> x \<longrightarrow>
        total_price item q = Finite (x * of_int q)
        \<and> (q = 0 \<longrightarrow> total_price item q = 0)
        \<and> (q < 0 \<longrightarrow> total_price item q \<le> 0)
        \<and> (0 < x \<and> q < 0 \<longrightarrow> total_price item q < 0))"
  by (simp add: total_price_def zero_pyfloat_def mult_le_0_iff mult_less_0_iff)

theorem total_price_product_witness:
  "total_price coke 2 = Finite 5 \<and> total_price coke 0 = 0
   \<and> total_price coke (- 2) = Finite (- 5) \<and> total_price coke (- 2) < 0
   \<and> total_price water (- 2) \<le> 0"
  using total_price_product [of coke 2 "5 / 2"] total_price_product [of coke 0 "5 / 2"]
    total_price_product [of coke "- 2" "5 / 2"] total_price_product [of water "- 2" 0]
  by (simp add: coke_def water_def zero_pyfloat_def)

text \<open>
  The claim as written says that, for every item with a price that is not negative, the
  result is negative for every negative quantity and zero for the quantity 0. An item
  that costs nothing has such a price, and its total for the quantity -1 is 0. The price
  \<^verbatim>\<open>float('inf')\<close> is not negative either, and the total for the quantity 0 is then
  \<^verbatim>\<open>nan\<close>, which is not zero.
\<close>

theorem total_price_free_item_counterexample:
  "0 \<le> price water \<and> (- 1 :: int) < 0 \<and> \<not> total_price water (- 1) < 0
   \<and> 0 \<le> price priceless \<and> total_price priceless 0 \<noteq> 0"
  by (simp add: total_price_def water_def priceless_def zero_pyfloat_def)

subsection \<open>Validation\<close>

text \<open>
  C4, as amended. \<open>set_price\<close> with a negative price raises the ValueError "Price cannot
  be negative." (the error the specification calls InvalidPriceError) and leaves the item
  as it was. A call of \<open>set_price\<close> with a price other than \<^verbatim>\<open>nan\<close>, on an item whose
  price is not negative, leaves an item whose price is not negative, whether the call
  raises or not.
\<close>

theorem set_price_negative:
  "(p < 0 \<longrightarrow> set_price item p = (item, Inl (ValueError ''Price cannot be negative.'')))
   \<and> (0 \<le> price item \<and> p \<noteq> NaN \<longrightarrow> 0 \<le> price (fst (set_price item p)))"
  by (cases p) (auto simp: set_price_def zero_pyfloat_def)

theorem set_price_negative_witness:
  "set_price coke (Finite (- 1)) = (coke, Inl (ValueError ''Price cannot be negative.''))
   \<and> set_price coke NegInf = (coke, Inl (ValueError ''Price cannot be negative.''))
   \<and> 0 \<le> price (fst (set_price coke (Finite (- 1))))
   \<and> 0 \<le> price (fst (set_price coke (Finite 3)))
   \<and> 0 \<le> price (fst (set_price coke PosInf))"
  using set_price_negative [of "Finite (- 1)" coke] set_price_negative [of "Finite 3" coke]
    set_price_negative [of NegInf coke] set_price_negative [of PosInf coke]
  by (simp add: coke_def zero_pyfloat_def)

text \<open>
  The claim as written has the price stay non-negative under every call of \<open>set_price\<close>.
  The check \<^verbatim>\<open>price < 0\<close> is False for \<^verbatim>\<open>nan\<close>: on the Coke, whose price 2.50 is not
  negative, \<open>set_price\<close> with \<^verbatim>\<open>nan\<close> returns normally and stores it, and \<^verbatim>\<open>nan >= 0\<close>
  is False.
\<close>

theorem set_price_nan_counterexample:
  "0 \<le> price coke
   \<and> snd (set_price coke NaN) = Inr ()
   \<and> price (fst (set_price coke NaN)) = NaN
   \<and> \<not> 0 \<le> price (fst (set_price coke NaN))"
  by (simp add: set_price_def coke_def zero_pyfloat_def)

text \<open>
  C5, as amended. \<open>add_menu_item\<close> appends the entry (item, quantity) at the end of the
  entries and returns normally for every quantity: positive, zero or negative. It never
  raises.
\<close>

theorem add_menu_item_appends:
  "add_menu_item ord item quantity =
     (ord\<lparr>order_items := order_items ord @ [(item, quantity)]\<rparr>, Inr ())"
  by (simp add: add_menu_item_def)

text \<open>
  The claim as written has the quantity 0 rejected with the entries unchanged. Adding
  zero Cokes to a fresh order returns normally and changes the entries.
\<close>

theorem add_menu_item_zero_counterexample:
  "snd (add_menu_item Order_init coke 0) = Inr ()
   \<and> order_items (fst (add_menu_item Order_init coke 0)) \<noteq> order_items Order_init"
  by (simp add: add_menu_item_def Order_init_def)

subsection \<open>Payment\<close>

text \<open>
  C3. \<open>pay\<close> of a CashPayment never raises. When the cash given covers the amount it
  reports the amount as paid with the change, cash given minus amount; otherwise it
  reports insufficient funds with the shortfall, amount minus cash given.
\<close>

theorem cash_payment_pay:
  "(cash_given \<ge> amount \<longrightarrow>
      pay (CashPayment cash_given) amount = Inr (PaidInCash amount (cash_given - amount)))
   \<and> (\<not> cash_given \<ge> amount \<longrightarrow>
      pay (CashPayment cash_given) amount = Inr (InsufficientFunds (amount - cash_given)))
   \<and> (\<exists>out. pay (CashPayment cash_given) amount = Inr out)"
  by simp

text \<open>Paying 21.50 with 20.00 leaves 1.50 to pay; with 25.00 the change is 3.50.\<close>

theorem cash_payment_pay_witness:
  "pay (CashPayment (Finite 20)) (Finite (43 / 2)) = Inr (InsufficientFunds (Finite (3 / 2)))
   \<and> pay (CashPayment (Finite 25)) (Finite (43 / 2))
       = Inr (PaidInCash (Finite (43 / 2)) (Finite (7 / 2)))"
  using cash_payment_pay [of "Finite (43 / 2)" "Finite 20"]
        cash_payment_pay [of "Finite (43 / 2)" "Finite 25"]
  by (simp del: pay.simps add: minus_pyfloat_def)

text \<open>
  C8. \<open>pay\<close> on the base class Payment raises NotImplementedError for every amount, and
  \<open>pay\<close> raises NotImplementedError only there: on a CardPayment and on a CashPayment it
  never does.
\<close>

theorem pay_not_implemented:
  "pay Payment amount = Inl (NotImplementedError ''Subclasses must implement the pay() method.'')
   \<and> (\<forall>msg. pay (CardPayment card_number cvv) amount \<noteq> Inl (NotImplementedError msg))
   \<and> (\<forall>msg. pay (CashPayment cash_given) amount \<noteq> Inl (NotImplementedError msg))
   \<and> ((\<exists>msg. pay p amount = Inl (NotImplementedError msg)) = (p = Payment))"
  by (cases p) simp_all

lemma slice_from_last4:
  "slice_from s (- 4) = drop (length s - 4) s"
  by (simp add: slice_from_def Let_def nat_diff_distrib' max_def)

lemma slice_from_examples:
  "slice_from ''4111111111111234'' (- 4) = ''1234''"
  "slice_from ''123'' (- 4) = ''123''"
  "slice_from ([] :: string) (- 4) = []"
  by (simp_all add: slice_from_def)

text \<open>
  C10. \<open>pay\<close> of a CardPayment returns normally for every card number and amount. The
  card ending it prints is a suffix of the card number: the whole card number when that
  has fewer than four characters, and its last four characters otherwise.
\<close>

theorem card_payment_pay:
  "\<exists>pre ending.
     pay (CardPayment card_number cvv) amount = Inr (PayingWithCard amount ending)
     \<and> card_number = pre @ ending
     \<and> (if length card_number < 4 then ending = card_number else length ending = 4)"
proof -
  let ?e = "drop (length card_number - 4) card_number"
  have "pay (CardPayment card_number cvv) amount = Inr (PayingWithCard amount ?e)"
    by (simp add: slice_from_last4)
  moreover have "card_number = take (length card_number - 4) card_number @ ?e"
    by simp
  moreover have "if length card_number < 4 then ?e = card_number else length ?e = 4"
    by simp
  ultimately show ?thesis by blast
qed

subsection \<open>The order queue\<close>

lemma run_fifo:
  "returned (snd (run m cs)) @ orders (fst (run m cs)) = orders m @ added cs"
proof (induction m cs rule: run.induct)
  case (1 m)
  show ?case by simp
next
  case (2 m e cs)
  then show ?case by (simp add: add_order_def)
next
  case (3 m cs)
  show ?case
  proof (cases "orders m")
    case Nil
    with 3 [of m None] show ?thesis
      by (auto simp: process_order_def split: prod.splits)
  next
    case (Cons x xs)
    with 3 [of "m\<lparr>orders := xs\<rparr>" "Some x"] show ?thesis
      by (auto simp: process_order_def split: prod.splits)
  qed
qed

lemma run_add_orders:
  "run m (map AddOrder es @ cs) = run (m\<lparr>orders := orders m @ es\<rparr>) cs"
  by (induction es arbitrary: m) (simp_all add: add_order_def)

lemma run_process_orders:
  "run m (replicate j ProcessOrder) =
     (m\<lparr>orders := drop j (orders m)\<rparr>,
      map Some (take j (orders m)) @ replicate (j - length (orders m)) None)"
proof (induction j arbitrary: m)
  case 0
  show ?case by simp
next
  case (Suc j)
  show ?case
  proof (cases "orders m")
    case Nil
    then show ?thesis
      using Suc [of m] by (simp add: process_order_def)
  next
    case (Cons x xs)
    then show ?thesis
      using Suc [of "m\<lparr>orders := xs\<rparr>"] by (simp add: process_order_def)
  qed
qed

text \<open>
  C2. On a new manager, after the orders \<open>es\<close> are enqueued, \<open>j\<close> calls of
  \<open>process_order\<close> return the first \<open>j\<close> of them in the order they were enqueued, and
  \<open>None\<close> for each call beyond their number; when \<open>j\<close> is at most the number of orders
  enqueued, the length of the manager is then that number minus \<open>j\<close>. For any sequence of
  calls on any manager, the orders handed out followed by the orders still queued are
  the orders queued at the start followed by the orders enqueued, so the length is the
  length at the start plus the number enqueued minus the number handed out.
\<close>

theorem order_manager_fifo:
  "snd (run OrderManager_init (map AddOrder es @ replicate j ProcessOrder))
     = map Some (take j es) @ replicate (j - length es) None
   \<and> (j \<le> length es \<longrightarrow>
        len (fst (run OrderManager_init (map AddOrder es @ replicate j ProcessOrder)))
          = length es - j)
   \<and> returned (snd (run m cs)) @ orders (fst (run m cs)) = orders m @ added cs
   \<and> int (len (fst (run m cs)))
     = int (len m) + int (length (added cs)) - int (length (returned (snd (run m cs))))"
proof -
  have "length (returned (snd (run m cs)) @ orders (fst (run m cs)))
          = length (orders m @ added cs)"
    by (simp only: run_fifo)
  then have "int (len (fst (run m cs)))
     = int (len m) + int (length (added cs)) - int (length (returned (snd (run m cs))))"
    by (simp add: len_def)
  then show ?thesis
    by (simp add: run_add_orders run_process_orders run_fifo OrderManager_init_def len_def)
qed

text \<open>
  Orders A and B are enqueued: three calls return A, B and nothing, and leave the queue
  empty; after one call one order is left. When the calls are mixed, the orders handed out
  and the orders left are A and B, in that order.
\<close>

theorem order_manager_fifo_witness:
  "snd (run OrderManager_init (map AddOrder [''A'', ''B''] @ replicate 3 ProcessOrder))
     = [Some ''A'', Some ''B'', None]
   \<and> len (fst (run OrderManager_init (map AddOrder [''A'', ''B''] @ replicate 1 ProcessOrder))) = 1
   \<and> returned (snd (run OrderManager_init
          [ProcessOrder, AddOrder ''A'', ProcessOrder, AddOrder ''B'']))
       @ orders (fst (run OrderManager_init
          [ProcessOrder, AddOrder ''A'', ProcessOrder, AddOrder ''B''])) = [''A'', ''B'']"
  using order_manager_fifo [of "[''A'', ''B'']" 3 OrderManager_init
          "[ProcessOrder, AddOrder ''A'', ProcessOrder, AddOrder ''B'']"]
        order_manager_fifo [of "[''A'', ''B'']" 1 OrderManager_init
          "[ProcessOrder, AddOrder ''A'', ProcessOrder, AddOrder ''B'']"]
  by (auto simp del: run.simps simp add: numeral_3_eq_3 OrderManager_init_def)

subsection \<open>The menu\<close>

lemma demo_menu_items:
  "menu_items demo_menu ''Beverage'' =
     Some [\<lparr>entry_name = ''Coke'', entry_price = Finite (5 / 2)\<rparr>,
           \<lparr>entry_name = ''Tea'', entry_price = Finite 2\<rparr>,
           \<lparr>entry_name = ''Coke'', entry_price = Finite 3\<rparr>]"
  "menu_items demo_menu ''Appetizer'' =
     Some [\<lparr>entry_name = ''Spring Rolls'', entry_price = Finite 5\<rparr>]"
  "menu_items demo_menu ''Maincourse'' = None"
  by (simp_all add: demo_menu_def add_item_def Menu_init_def)

text \<open>
  C7. \<open>delete_item\<close> returns True exactly when the category is a key of the menu, also
  when no entry of the category has the name. It leaves every other category as it was.
  The category itself keeps, in their order, exactly its entries with another name, so no
  entry with the name is left, however many there were. When the category is not a key
  the menu is unchanged.
\<close>

theorem delete_item_all_matches:
  "snd (delete_item m category n) = (category \<in> dom (menu_items m))
   \<and> (\<forall>c. c \<noteq> category \<longrightarrow>
         menu_items (fst (delete_item m category n)) c = menu_items m c)
   \<and> (\<forall>es. menu_items m category = Some es \<longrightarrow>
         menu_items (fst (delete_item m category n)) category
           = Some (filter (\<lambda>item. entry_name item \<noteq> n) es))
   \<and> (\<forall>es'. menu_items (fst (delete_item m category n)) category = Some es' \<longrightarrow>
         (\<forall>item \<in> set es'. entry_name item \<noteq> n))
   \<and> (menu_items m category = None \<longrightarrow> fst (delete_item m category n) = m)"
  by (cases "menu_items m category") (auto simp: delete_item_def)

text \<open>
  The menu has two Cokes and a Tea under Beverage: deleting Coke leaves the Tea and the
  appetizers. Deleting a name that is not there still returns True; deleting from a
  category that is not there returns False.
\<close>

theorem delete_item_all_matches_witness:
  "snd (delete_item demo_menu ''Beverage'' ''Coke'') = True
   \<and> menu_items (fst (delete_item demo_menu ''Beverage'' ''Coke'')) ''Appetizer''
       = Some [\<lparr>entry_name = ''Spring Rolls'', entry_price = Finite 5\<rparr>]
   \<and> menu_items (fst (delete_item demo_menu ''Beverage'' ''Coke'')) ''Beverage''
       = Some [\<lparr>entry_name = ''Tea'', entry_price = Finite 2\<rparr>]
   \<and> snd (delete_item demo_menu ''Beverage'' ''Fanta'') = True
   \<and> snd (delete_item demo_menu ''Maincourse'' ''Coke'') = False
   \<and> fst (delete_item demo_menu ''Maincourse'' ''Coke'') = demo_menu"
  using delete_item_all_matches [of demo_menu "''Beverage''" "''Coke''"]
        delete_item_all_matches [of demo_menu "''Beverage''" "''Fanta''"]
        delete_item_all_matches [of demo_menu "''Maincourse''" "''Coke''"]
  by (simp add: demo_menu_items dom_def)

end
